theory Spec2Isabelle
  imports Main
begin

section \<open>Python values and strings\<close>

text \<open>
  The reconciliation engine of \<^verbatim>\<open>agents/data_analyst.py\<close> works on Python
  dictionaries whose values come from a scraper and from a JSON payload. A value is
  \<^verbatim>\<open>None\<close>, a string, a list of values, or something else (a number); the last kind is
  represented by \<open>PInt\<close>. A character is a code point below 256, so the string
  functions below are Python's \<^verbatim>\<open>str\<close> methods restricted to such code points.
\<close>

datatype pyval = PNone | PStr string | PList "pyval list" | PInt int

text \<open>
  The two exceptions that leave the engine: \<^verbatim>\<open>TypeError\<close>, from joining a list that
  holds a member that is not a string, and \<^verbatim>\<open>OpenAIError\<close>, from building the client
  without an API key.
\<close>

datatype error = TypeError | OpenAIError

text \<open>Truth value of an object, as \<^verbatim>\<open>if v\<close> reads it.\<close>

fun truthy :: "pyval \<Rightarrow> bool" where
  "truthy PNone = False"
| "truthy (PStr s) = (s \<noteq> [])"
| "truthy (PList xs) = (xs \<noteq> [])"
| "truthy (PInt i) = (i \<noteq> 0)"

text \<open>
  \<^verbatim>\<open>str.isspace\<close> on one character: the code points 9 to 13, 28 to 32, 133 and 160.
\<close>

definition isspace :: "char \<Rightarrow> bool" where
  "isspace c = (let n = (of_char c :: nat) in
     (9 \<le> n \<and> n \<le> 13) \<or> (28 \<le> n \<and> n \<le> 32) \<or> n = 133 \<or> n = 160)"

text \<open>\<^verbatim>\<open>str.isdigit\<close> on one character: the ten digits and the superscripts 1, 2, 3.\<close>

definition isdigit :: "char \<Rightarrow> bool" where
  "isdigit c = (let n = (of_char c :: nat) in
     (48 \<le> n \<and> n \<le> 57) \<or> n = 178 \<or> n = 179 \<or> n = 185)"

text \<open>\<^verbatim>\<open>str.strip()\<close>: leading and trailing whitespace removed.\<close>

definition strip :: "string \<Rightarrow> string" where
  "strip s = rev (dropWhile isspace (rev (dropWhile isspace s)))"

text \<open>
  \<^verbatim>\<open>str.upper()\<close> and \<^verbatim>\<open>str.lower()\<close>, character by character. The three
  characters below 256 whose upper-case form is not one character below 256 (181, 223
  and 255) are left as they are: their upper-case forms hold no character of the phrases
  that the upper-cased text is searched for, apart from the letter S, which none of
  the phrases contains.
\<close>

definition upper_char :: "char \<Rightarrow> char" where
  "upper_char c = (let n = (of_char c :: nat) in
     if (97 \<le> n \<and> n \<le> 122) \<or> (224 \<le> n \<and> n \<le> 254 \<and> n \<noteq> 247)
     then char_of (n - 32) else c)"

definition lower_char :: "char \<Rightarrow> char" where
  "lower_char c = (let n = (of_char c :: nat) in
     if (65 \<le> n \<and> n \<le> 90) \<or> (192 \<le> n \<and> n \<le> 222 \<and> n \<noteq> 215)
     then char_of (n + 32) else c)"

definition upper :: "string \<Rightarrow> string" where
  "upper s = map upper_char s"

definition lower :: "string \<Rightarrow> string" where
  "lower s = map lower_char s"

text \<open>\<^verbatim>\<open>s.startswith(p)\<close>.\<close>

fun startswith :: "string \<Rightarrow> string \<Rightarrow> bool" where
  "startswith s [] = True"
| "startswith [] (p # ps) = False"
| "startswith (c # cs) (p # ps) = (c = p \<and> startswith cs ps)"

text \<open>\<^verbatim>\<open>sub in s\<close> on strings: \<open>sub\<close> occurs in \<open>s\<close> as a contiguous piece.\<close>

fun contains :: "string \<Rightarrow> string \<Rightarrow> bool" where
  "contains sub [] = (sub = [])"
| "contains sub (c # cs) = (startswith (c # cs) sub \<or> contains sub cs)"

text \<open>\<^verbatim>\<open>s.replace(old, new)\<close> for one-character \<open>old\<close> and \<open>new\<close>.\<close>

definition replace :: "char \<Rightarrow> char \<Rightarrow> string \<Rightarrow> string" where
  "replace old new s = map (\<lambda>c. if c = old then new else c) s"

text \<open>\<^verbatim>\<open>s.split(d)\<close> for a one-character delimiter: always at least one part.\<close>

fun split :: "char \<Rightarrow> string \<Rightarrow> string list" where
  "split d [] = [[]]"
| "split d (c # cs) =
     (if c = d then [] # split d cs
      else (case split d cs of p # ps \<Rightarrow> (c # p) # ps | [] \<Rightarrow> [[c]]))"

text \<open>\<^verbatim>\<open>sep.join(parts)\<close> on strings.\<close>

fun join :: "string \<Rightarrow> string list \<Rightarrow> string" where
  "join sep [] = []"
| "join sep [p] = p"
| "join sep (p # q # ps) = p @ sep @ join sep (q # ps)"

text \<open>
  \<^verbatim>\<open>sep.join(values)\<close> on a list of objects: a member that is not a string raises
  \<^verbatim>\<open>TypeError\<close>.
\<close>

fun strings_of :: "pyval list \<Rightarrow> error + string list" where
  "strings_of [] = Inr []"
| "strings_of (PStr s # vs) = (case strings_of vs of Inl e \<Rightarrow> Inl e | Inr ss \<Rightarrow> Inr (s # ss))"
| "strings_of (v # vs) = Inl TypeError"

definition join_values :: "string \<Rightarrow> pyval list \<Rightarrow> error + string" where
  "join_values sep vs = (case strings_of vs of Inl e \<Rightarrow> Inl e | Inr ss \<Rightarrow> Inr (join sep ss))"

section \<open>The industry vocabulary\<close>

definition INDUSTRY_TYPES :: "string list" where
  "INDUSTRY_TYPES =
    [''Business and Marketing'',
     ''Automotive'',
     ''Finance and Banking and Insurance'',
     ''Chemical'',
     ''Electronics and Home Appliance'',
     ''Energy and Environment'',
     ''Tourism and Hotel and Catering'',
     ''Gaming and Video Games'',
     ''Medical and Healthcare'',
     ''Government and NPO'',
     ''Legal and Contracts'',
     ''Literary and Art and History'',
     ''Software and IT'',
     ''Telecommunications'',
     ''Ecommerce and Shipping'',
     ''Technical and Engineering'',
     ''Certificates'',
     ''Education and E-learning'',
     ''Patent and Intellectual Property'',
     ''Media and Entertainment'',
     ''General'']"

section \<open>The validity predicate\<close>

definition missing_phrases :: "string list" where
  "missing_phrases = [''N/A'', ''NOT FOUND'', ''NO INFORMATION FOUND'', ''UNKNOWN'', '''']"

text \<open>
  \<^verbatim>\<open>_is_missing_or_incorrect(value, field)\<close>. The phrases are searched with
  \<^verbatim>\<open>in\<close>, the substring test, and the empty phrase is among them.
\<close>

fun is_missing_or_incorrect :: "pyval \<Rightarrow> string \<Rightarrow> bool" where
  "is_missing_or_incorrect PNone field = True"
| "is_missing_or_incorrect (PStr val) field =
     (let value_clean = upper (strip val) in
      if list_ex (\<lambda>phrase. contains phrase value_clean) missing_phrases
         \<or> contains ''NO INFORMATION FOUND'' value_clean then True
      else if field = ''Email'' \<and> (\<not> contains ''@'' val \<or> \<not> contains ''.'' val) then True
      else if field = ''Phone'' \<and> \<not> list_ex isdigit val then True
      else if field = ''Website'' \<and> (\<not> startswith val ''http'' \<or> \<not> contains ''.'' val) then True
      else False)"
| "is_missing_or_incorrect (PList xs) field = False"
| "is_missing_or_incorrect (PInt i) field = False"

section \<open>The multi-value combiner\<close>

text \<open>
  \<^verbatim>\<open>split_values\<close>, the inner function of \<^verbatim>\<open>_combine_multiple_values\<close>. A list keeps
  its members that are non-empty strings and strips each of them; a string is cut at
  newlines, commas and semicolons, each part is stripped and the empty parts are dropped.
\<close>

fun split_values :: "pyval \<Rightarrow> string list" where
  "split_values (PList val) =
     concat (map (\<lambda>v. case v of PStr s \<Rightarrow> if truthy v then [strip s] else [] | _ \<Rightarrow> []) val)"
| "split_values (PStr val) =
     (let parts = map strip (split CHR '';'' (replace CHR '','' CHR '';'' (replace CHR 0x0A CHR '';'' val)))
      in filter (\<lambda>p. p \<noteq> []) parts)"
| "split_values PNone = []"
| "split_values (PInt i) = []"

text \<open>
  The loop \<^verbatim>\<open>for v in g_list + l_list: if v not in combined: combined.append(v)\<close>,
  with \<open>combined\<close> as the accumulator.
\<close>

fun dedup_loop :: "string list \<Rightarrow> string list \<Rightarrow> string list" where
  "dedup_loop combined [] = combined"
| "dedup_loop combined (v # vs) =
     (if v \<notin> set combined then dedup_loop (combined @ [v]) vs else dedup_loop combined vs)"

definition combine_multiple_values :: "pyval \<Rightarrow> pyval \<Rightarrow> pyval" where
  "combine_multiple_values g_val l_val =
     (let g_list = split_values g_val;
          l_list = split_values l_val;
          combined = dedup_loop [] (g_list @ l_list)
      in if combined \<noteq> [] then PStr (join ''; '' combined) else PNone)"

section \<open>Dictionaries, the store and the generative text service\<close>

text \<open>
  A dictionary keeps its items in insertion order. Dictionaries are mutable objects, so
  they live in a store and the functions below take references to them: \<open>heap\<close> gives
  the dictionary at each reference and \<open>next_ref\<close> is the first reference not yet
  allocated. The engine builds new lists and never writes into one it was given, so a
  list is a value here. \<open>api_key\<close> is the attribute \<^verbatim>\<open>self.api_key\<close> of the agent, which
  \<^verbatim>\<open>__init__\<close> reads from the environment variable \<^verbatim>\<open>OPENAI_API_KEY\<close>: \<open>None\<close> when
  the variable is not set.
\<close>

type_synonym pydict = "(string \<times> pyval) list"

type_synonym ref = nat

text \<open>\<^verbatim>\<open>d.get(k, default)\<close>, \<^verbatim>\<open>d[k] = v\<close> and \<^verbatim>\<open>d.keys()\<close>.\<close>

definition dict_get :: "pydict \<Rightarrow> string \<Rightarrow> pyval \<Rightarrow> pyval" where
  "dict_get d k dflt = (case map_of d k of None \<Rightarrow> dflt | Some v \<Rightarrow> v)"

fun dict_set :: "pydict \<Rightarrow> string \<Rightarrow> pyval \<Rightarrow> pydict" where
  "dict_set [] k v = [(k, v)]"
| "dict_set ((k', v') # d) k v = (if k' = k then (k, v) # d else (k', v') # dict_set d k v)"

definition dict_keys :: "pydict \<Rightarrow> string list" where
  "dict_keys d = map fst d"

text \<open>
  The three prompts of \<^verbatim>\<open>_openai_fill_field\<close> and the prompt of
  \<^verbatim>\<open>_openai_select_industry\<close>, by what is interpolated into each: the field name (the
  generic prompt only), the industry list, and the two dictionaries as they are printed.
\<close>

datatype prompt =
    DescriptionPrompt pydict pydict
  | CountryPrompt pydict pydict
  | FieldPrompt string pydict pydict
  | IndustryPrompt "string list" pydict pydict

datatype request =
  Request (model: string) (user_prompt: prompt) (max_tokens: nat) (temperature_tenths: nat)

text \<open>
  The generative text service is any function of its own state and the request. It
  answers \<open>Some content\<close>, or \<open>None\<close> when the call or the reading of its response
  raises, which the callers catch.
\<close>

type_synonym 's service = "'s \<Rightarrow> request \<Rightarrow> string option \<times> 's"

record 's world =
  heap :: "ref \<Rightarrow> pydict"
  next_ref :: ref
  service_state :: 's
  api_key :: "string option"

text \<open>
  \<^verbatim>\<open>openai.OpenAI(api_key=self.api_key)\<close>: with no key given the constructor looks the
  same environment variable up and, finding none, raises \<^verbatim>\<open>OpenAIError\<close>.
\<close>

definition openai_client :: "'s world \<Rightarrow> error + string" where
  "openai_client w = (case api_key w of None \<Rightarrow> Inl OpenAIError | Some key \<Rightarrow> Inr key)"

text \<open>
  \<^verbatim>\<open>stringify_addresses(data)\<close>, the inner function of \<^verbatim>\<open>_openai_fill_field\<close>: when the
  dictionary has a list under \<^verbatim>\<open>"Address"\<close>, a copy is allocated, the list is joined (a
  member that is not a string raises) and the copy's entry is overwritten; the reference
  to the copy is returned. Otherwise the reference it was given is returned.
\<close>

definition stringify_addresses :: "ref \<Rightarrow> 's world \<Rightarrow> (error + ref) \<times> 's world" where
  "stringify_addresses data w =
     (case map_of (heap w data) ''Address'' of
        Some (PList members) \<Rightarrow>
          (let copy = next_ref w;
               w1 = w\<lparr>heap := (heap w)(copy := heap w data), next_ref := Suc (next_ref w)\<rparr>
           in case join_values ''; '' members of
                Inl e \<Rightarrow> (Inl e, w1)
              | Inr s \<Rightarrow>
                  (Inr copy, w1\<lparr>heap := (heap w1)(copy := dict_set (heap w1 copy) ''Address'' (PStr s))\<rparr>))
      | _ \<Rightarrow> (Inr data, w))"

definition fill_prompt :: "string \<Rightarrow> pydict \<Rightarrow> pydict \<Rightarrow> prompt" where
  "fill_prompt field google_data linkedin_data =
     (if lower field = ''description'' then DescriptionPrompt google_data linkedin_data
      else if lower field = ''country'' then CountryPrompt google_data linkedin_data
      else FieldPrompt field google_data linkedin_data)"

text \<open>
  \<^verbatim>\<open>_openai_fill_field(field, google_data, linkedin_data)\<close>. The two calls of
  \<^verbatim>\<open>stringify_addresses\<close> stand before the \<^verbatim>\<open>try\<close>, so their error leaves the function;
  a failure of the service is caught and answered with \<^verbatim>\<open>"Unknown"\<close>. The client
  is built first of all, before the \<^verbatim>\<open>try\<close>, so its error leaves the function too.
\<close>

definition openai_fill_field ::
  "'s service \<Rightarrow> string \<Rightarrow> ref \<Rightarrow> ref \<Rightarrow> 's world \<Rightarrow> (error + string) \<times> 's world" where
  "openai_fill_field svc field google_data linkedin_data w =
     (case openai_client w of
        Inl e \<Rightarrow> (Inl e, w)
      | Inr client \<Rightarrow>
     (case stringify_addresses google_data w of
        (Inl e, w1) \<Rightarrow> (Inl e, w1)
      | (Inr google_data', w1) \<Rightarrow>
     (case stringify_addresses linkedin_data w1 of
        (Inl e, w2) \<Rightarrow> (Inl e, w2)
      | (Inr linkedin_data', w2) \<Rightarrow>
     (let prompt = fill_prompt field (heap w2 google_data') (heap w2 linkedin_data');
          (response, s') = svc (service_state w2) (Request ''gpt-4'' prompt 500 10);
          w3 = w2\<lparr>service_state := s'\<rparr>
      in case response of
           Some content \<Rightarrow> (let val = strip content in (Inr (if val \<noteq> [] then val else ''Unknown''), w3))
         | None \<Rightarrow> (Inr ''Unknown'', w3)))))"

text \<open>
  \<^verbatim>\<open>_openai_select_industry(google_data, linkedin_data)\<close>: the client is built before the
  \<^verbatim>\<open>try\<close>, the dictionaries are printed as they are, and an answer outside the
  vocabulary, like a failure of the service, gives \<^verbatim>\<open>"General"\<close>.
\<close>

definition openai_select_industry ::
  "'s service \<Rightarrow> ref \<Rightarrow> ref \<Rightarrow> 's world \<Rightarrow> (error + string) \<times> 's world" where
  "openai_select_industry svc google_data linkedin_data w =
     (case openai_client w of
        Inl e \<Rightarrow> (Inl e, w)
      | Inr client \<Rightarrow>
     (let prompt = IndustryPrompt INDUSTRY_TYPES (heap w google_data) (heap w linkedin_data);
          (response, s') = svc (service_state w) (Request ''gpt-4'' prompt 20 2);
          w1 = w\<lparr>service_state := s'\<rparr>
      in case response of
           Some content \<Rightarrow>
             (let val = strip content
              in (Inr (if val \<notin> set INDUSTRY_TYPES then ''General'' else val), w1))
         | None \<Rightarrow> (Inr ''General'', w1)))"

section \<open>The reconciliation engine\<close>

text \<open>
  The body of the loop of \<^verbatim>\<open>analyze_company_data\<close> for a field that is not the
  country: the new \<open>result\<close> dictionary, or the error of the adapter.
\<close>

definition loop_body ::
  "'s service \<Rightarrow> string \<Rightarrow> ref \<Rightarrow> ref \<Rightarrow> (string \<rightharpoonup> pyval) \<Rightarrow> 's world
    \<Rightarrow> (error + (string \<rightharpoonup> pyval)) \<times> 's world" where
  "loop_body svc field google_data linkedin_data result w =
     (let g_val = dict_get (heap w google_data) field (PStr ''N/A'');
          l_val = dict_get (heap w linkedin_data) field (PStr ''N/A'')
      in if lower field \<in> set [''address'', ''phone''] then
           (let combined = combine_multiple_values g_val l_val
            in if truthy combined \<and> \<not> is_missing_or_incorrect combined field
               then (Inr (result(field \<mapsto> combined)), w)
               else (case openai_fill_field svc field google_data linkedin_data w of
                       (Inl e, w') \<Rightarrow> (Inl e, w')
                     | (Inr v, w') \<Rightarrow> (Inr (result(field \<mapsto> PStr v)), w')))
         else if \<not> is_missing_or_incorrect g_val field then (Inr (result(field \<mapsto> g_val)), w)
         else if \<not> is_missing_or_incorrect l_val field then (Inr (result(field \<mapsto> l_val)), w)
         else (case openai_fill_field svc field google_data linkedin_data w of
                 (Inl e, w') \<Rightarrow> (Inl e, w')
               | (Inr v, w') \<Rightarrow> (Inr (result(field \<mapsto> PStr v)), w')))"

text \<open>
  The loop \<^verbatim>\<open>for field in all_fields\<close>. \<^verbatim>\<open>all_fields\<close> is a Python set, which is
  iterated in an order the language does not fix: the order is the list given here.
\<close>

fun analyze_loop ::
  "'s service \<Rightarrow> string list \<Rightarrow> ref \<Rightarrow> ref \<Rightarrow> (string \<rightharpoonup> pyval) \<Rightarrow> 's world
    \<Rightarrow> (error + (string \<rightharpoonup> pyval)) \<times> 's world" where
  "analyze_loop svc [] google_data linkedin_data result w = (Inr result, w)"
| "analyze_loop svc (field # rest) google_data linkedin_data result w =
     (if lower field = ''country'' then analyze_loop svc rest google_data linkedin_data result w
      else (case loop_body svc field google_data linkedin_data result w of
              (Inl e, w') \<Rightarrow> (Inl e, w')
            | (Inr result', w') \<Rightarrow> analyze_loop svc rest google_data linkedin_data result' w'))"

text \<open>
  \<open>all_fields\<close> is an iteration order of
  \<^verbatim>\<open>set(google_data.keys()) | set(linkedin_data.keys())\<close>: every key once.
\<close>

definition all_fields_order :: "string list \<Rightarrow> pydict \<Rightarrow> pydict \<Rightarrow> bool" where
  "all_fields_order all_fields google_data linkedin_data =
     (distinct all_fields \<and> set all_fields = set (dict_keys google_data) \<union> set (dict_keys linkedin_data))"

text \<open>\<^verbatim>\<open>analyze_company_data(google_data, linkedin_data)\<close>, iterating in the order \<open>all_fields\<close>.\<close>

definition analyze_company_data ::
  "'s service \<Rightarrow> string list \<Rightarrow> ref \<Rightarrow> ref \<Rightarrow> 's world
    \<Rightarrow> (error + (string \<rightharpoonup> pyval)) \<times> 's world" where
  "analyze_company_data svc all_fields google_data linkedin_data w =
     (case analyze_loop svc all_fields google_data linkedin_data Map.empty w of
        (Inl e, w1) \<Rightarrow> (Inl e, w1)
      | (Inr result, w1) \<Rightarrow>
     (case openai_fill_field svc ''country'' google_data linkedin_data w1 of
        (Inl e, w2) \<Rightarrow> (Inl e, w2)
      | (Inr country, w2) \<Rightarrow>
     (case openai_select_industry svc google_data linkedin_data w2 of
        (Inl e, w3) \<Rightarrow> (Inl e, w3)
      | (Inr industry, w3) \<Rightarrow>
          (Inr (result(''country'' \<mapsto> PStr country, ''industry_type'' \<mapsto> PStr industry)), w3))))"

section \<open>Notions used in the statements\<close>

text \<open>
  \<open>extends w w'\<close>: the store of \<open>w'\<close> holds every dictionary that was allocated in
  \<open>w\<close>, unchanged, and the API key is the same.
\<close>

definition extends :: "'s world \<Rightarrow> 's world \<Rightarrow> bool" where
  "extends w w' =
     (next_ref w \<le> next_ref w' \<and> (\<forall>r. r < next_ref w \<longrightarrow> heap w' r = heap w r)
      \<and> api_key w' = api_key w)"

text \<open>
  What \<^verbatim>\<open>stringify_addresses\<close> leaves at the reference it returns, and the dictionaries
  on which its join does not raise.
\<close>

definition stringified :: "pydict \<Rightarrow> pydict" where
  "stringified d =
     (case map_of d ''Address'' of
        Some (PList members) \<Rightarrow>
          (case join_values ''; '' members of
             Inl e \<Rightarrow> d
           | Inr s \<Rightarrow> dict_set d ''Address'' (PStr s))
      | _ \<Rightarrow> d)"

definition address_joinable :: "pydict \<Rightarrow> bool" where
  "address_joinable d =
     (case map_of d ''Address'' of
        Some (PList members) \<Rightarrow> list_all (\<lambda>v. case v of PStr s \<Rightarrow> True | _ \<Rightarrow> False) members
      | _ \<Rightarrow> True)"

text \<open>
  The exception with which the adapter leaves, if any, from what the world holds: no API
  key, or an address list, in the first or the second record, that cannot be joined.
\<close>

definition adapter_error :: "'s world \<Rightarrow> ref \<Rightarrow> ref \<Rightarrow> error option" where
  "adapter_error w google_data linkedin_data =
     (if api_key w = None then Some OpenAIError
      else if address_joinable (heap w google_data) \<and> address_joinable (heap w linkedin_data)
      then None else Some TypeError)"


text \<open>
  The combiner as the specification words it, to be compared with
  \<open>combine_multiple_values\<close>: each input becomes a list of trimmed non-empty strings (a
  list keeps its string members, a string is cut at newlines, commas and semicolons), the
  two lists are concatenated, a string that was seen before is dropped, and the rest is
  joined with \<^verbatim>\<open>"; "\<close>; nothing left gives \<^verbatim>\<open>None\<close>. \<open>no_blank_member\<close> holds of
  the inputs in which no list member is a non-empty string of whitespace only.
\<close>

definition first_seen :: "string list \<Rightarrow> string list" where
  "first_seen xs = rev (remdups (rev xs))"

definition normalize_reference :: "pyval \<Rightarrow> string list" where
  "normalize_reference v =
     (case v of
        PList members \<Rightarrow>
          filter (\<lambda>p. p \<noteq> [])
            (map strip (concat (map (\<lambda>m. case m of PStr s \<Rightarrow> [s] | _ \<Rightarrow> []) members)))
      | PStr s \<Rightarrow>
          filter (\<lambda>p. p \<noteq> [])
            (map strip (split CHR '';'' (replace CHR '','' CHR '';'' (replace CHR 0x0A CHR '';'' s))))
      | _ \<Rightarrow> [])"

definition combine_reference :: "pyval \<Rightarrow> pyval \<Rightarrow> pyval" where
  "combine_reference a b =
     (let parts = first_seen (normalize_reference a @ normalize_reference b)
      in if parts = [] then PNone else PStr (join ''; '' parts))"

definition no_blank_member :: "pyval \<Rightarrow> bool" where
  "no_blank_member v =
     (case v of
        PList members \<Rightarrow>
          list_all (\<lambda>m. case m of PStr s \<Rightarrow> s = [] \<or> strip s \<noteq> [] | _ \<Rightarrow> True) members
      | _ \<Rightarrow> True)"

text \<open>
  The caller of \<^verbatim>\<open>analyze_company_data\<close> in \<^verbatim>\<open>main.py\<close> holds two dictionaries and
  nothing else: \<open>two_records a b s\<close> is the world with \<open>a\<close> at reference 0 and \<open>b\<close> at
  reference 1, and with an API key. \<open>always answer\<close> is the service that gives the same
  answer to every request.
\<close>

definition two_records :: "pydict \<Rightarrow> pydict \<Rightarrow> 's \<Rightarrow> 's world" where
  "two_records a b s =
     \<lparr>heap = (\<lambda>r. if r = 0 then a else if r = 1 then b else []), next_ref = 2, service_state = s,
      api_key = Some ''sk-key''\<rparr>"

definition always :: "string option \<Rightarrow> unit service" where
  "always answer = (\<lambda>s req. (answer, s))"

section \<open>Properties of the validity predicate and the combiner\<close>

lemma contains_Nil [simp]: "contains [] s"
  by (cases s) simp_all

text \<open>
  The empty phrase of \<open>missing_phrases\<close> occurs in every text, so the predicate holds
  of every string, whatever the field.
\<close>

lemma is_missing_or_incorrect_PStr [simp]: "is_missing_or_incorrect (PStr s) field"
  by (simp add: missing_phrases_def Let_def)

declare is_missing_or_incorrect.simps(2) [simp del]

lemma combine_multiple_values_cases:
  "combine_multiple_values a b = PNone \<or> (\<exists>s. combine_multiple_values a b = PStr s)"
  by (simp add: combine_multiple_values_def Let_def)

lemma combined_never_accepted [simp]:
  "\<not> (truthy (combine_multiple_values a b)
      \<and> \<not> is_missing_or_incorrect (combine_multiple_values a b) field)"
  using combine_multiple_values_cases [of a b] by auto

lemma set_dedup_loop: "set (dedup_loop acc xs) = set acc \<union> set xs"
  by (induction xs arbitrary: acc) auto

lemma dedup_loop_append: "dedup_loop acc (xs @ ys) = dedup_loop (dedup_loop acc xs) ys"
  by (induction xs arbitrary: acc) auto

lemma dedup_loop_seen: "set ys \<subseteq> set acc \<Longrightarrow> dedup_loop acc ys = acc"
  by (induction ys arbitrary: acc) auto

lemma dedup_loop_twice: "dedup_loop [] (xs @ xs) = dedup_loop [] xs"
  by (simp add: dedup_loop_append dedup_loop_seen set_dedup_loop)

text \<open>
  C10. Combining a value with itself gives what combining it with \<^verbatim>\<open>None\<close> gives:
  the second copy of the parts is dropped by the deduplication.
\<close>

theorem combine_multiple_values_self:
  "combine_multiple_values v v = combine_multiple_values v PNone"
  by (simp add: combine_multiple_values_def dedup_loop_twice)

section \<open>The store and the adapter\<close>

lemma extends_refl [simp]: "extends w w"
  by (simp add: extends_def)

lemma extends_trans: "extends w w1 \<Longrightarrow> extends w1 w2 \<Longrightarrow> extends w w2"
  by (auto simp: extends_def)

lemma extends_heap: "extends w w' \<Longrightarrow> r < next_ref w \<Longrightarrow> heap w' r = heap w r"
  by (simp add: extends_def)

lemma extends_next_ref: "extends w w' \<Longrightarrow> r < next_ref w \<Longrightarrow> r < next_ref w'"
  by (simp add: extends_def)

lemma stringify_addresses_extends:
  "stringify_addresses d w = (out, w') \<Longrightarrow> extends w w'"
  by (auto simp: stringify_addresses_def extends_def Let_def
           split: option.splits pyval.splits sum.splits)

lemma stringify_addresses_service_state:
  "stringify_addresses d w = (out, w') \<Longrightarrow> service_state w' = service_state w"
  by (auto simp: stringify_addresses_def Let_def
           split: option.splits pyval.splits sum.splits)

lemma stringify_addresses_ref:
  "stringify_addresses d w = (Inr d', w') \<Longrightarrow> d < next_ref w \<Longrightarrow> d' < next_ref w'"
  by (auto simp: stringify_addresses_def Let_def
           split: option.splits pyval.splits sum.splits)

lemma stringify_addresses_heap:
  "stringify_addresses d w = (Inr d', w') \<Longrightarrow> heap w' d' = stringified (heap w d)"
  by (auto simp: stringify_addresses_def stringified_def Let_def
           split: option.splits pyval.splits sum.splits)

lemma strings_of_joinable:
  "list_all (\<lambda>v. case v of PStr s \<Rightarrow> True | _ \<Rightarrow> False) vs \<Longrightarrow> \<exists>ss. strings_of vs = Inr ss"
  by (induction vs rule: strings_of.induct) auto

lemma stringify_addresses_returns:
  assumes "address_joinable (heap w d)"
  shows "\<exists>d' w'. stringify_addresses d w = (Inr d', w')"
proof (cases "map_of (heap w d) ''Address''")
  case None
  then show ?thesis by (simp add: stringify_addresses_def)
next
  case (Some v)
  show ?thesis
  proof (cases v)
    case (PList members)
    with Some assms obtain ss where "strings_of members = Inr ss"
      using strings_of_joinable by (auto simp: address_joinable_def)
    with Some PList show ?thesis
      by (simp add: stringify_addresses_def join_values_def Let_def)
  qed (use Some in \<open>simp_all add: stringify_addresses_def\<close>)
qed

lemma stringify_addresses_raises:
  "stringify_addresses d w = (Inl e, w') \<Longrightarrow> \<not> address_joinable (heap w d)"
  using stringify_addresses_returns [of w d] by auto


lemma strings_of_error: "strings_of vs = Inl e \<Longrightarrow> e = TypeError"
  by (induction vs rule: strings_of.induct) (auto split: sum.splits)

lemma strings_of_not_joinable:
  "\<not> list_all (\<lambda>v. case v of PStr s \<Rightarrow> True | _ \<Rightarrow> False) vs \<Longrightarrow> strings_of vs = Inl TypeError"
  by (induction vs rule: strings_of.induct) auto

lemma stringify_addresses_not_joinable:
  assumes "\<not> address_joinable (heap w d)"
  shows "\<exists>w'. stringify_addresses d w = (Inl TypeError, w')"
proof -
  from assms obtain members where
    m: "map_of (heap w d) ''Address'' = Some (PList members)"
    and n: "\<not> list_all (\<lambda>v. case v of PStr s \<Rightarrow> True | _ \<Rightarrow> False) members"
    by (auto simp: address_joinable_def split: option.splits pyval.splits)
  from n have "strings_of members = Inl TypeError" by (rule strings_of_not_joinable)
  with m show ?thesis
    by (simp add: stringify_addresses_def join_values_def Let_def)
qed

lemma openai_fill_field_no_key:
  "api_key w = None \<Longrightarrow> openai_fill_field svc field g l w = (Inl OpenAIError, w)"
  by (simp add: openai_fill_field_def openai_client_def)

lemma openai_fill_field_unfold:
  assumes "openai_fill_field svc field g l w = (Inr v, w')"
  obtains g' w1 l' w2 where
    "api_key w \<noteq> None"
    "stringify_addresses g w = (Inr g', w1)"
    "stringify_addresses l w1 = (Inr l', w2)"
    "v = (case fst (svc (service_state w2)
                 (Request ''gpt-4'' (fill_prompt field (heap w2 g') (heap w2 l')) 500 10)) of
            None \<Rightarrow> ''Unknown''
          | Some content \<Rightarrow> if strip content \<noteq> [] then strip content else ''Unknown'')"
    "w' = w2\<lparr>service_state := snd (svc (service_state w2)
                 (Request ''gpt-4'' (fill_prompt field (heap w2 g') (heap w2 l')) 500 10))\<rparr>"
  using assms
  by (auto simp: openai_fill_field_def openai_client_def Let_def
           split: prod.splits sum.splits option.splits if_splits)

lemma openai_fill_field_extends:
  assumes "openai_fill_field svc field g l w = (out, w')"
  shows "extends w w'"
proof -
  obtain o1 w1 where s1: "stringify_addresses g w = (o1, w1)" by force
  obtain o2 w2 where s2: "stringify_addresses l w1 = (o2, w2)" by force
  have e1: "extends w w1" using s1 by (rule stringify_addresses_extends)
  have e2: "extends w1 w2" using s2 by (rule stringify_addresses_extends)
  have "w' = w \<or> w' = w1
        \<or> heap w' = heap w2 \<and> next_ref w' = next_ref w2 \<and> api_key w' = api_key w2"
    using assms s1 s2
    by (auto simp: openai_fill_field_def openai_client_def Let_def
             split: prod.splits sum.splits option.splits if_splits)
  then consider "w' = w" | "w' = w1"
    | "heap w' = heap w2 \<and> next_ref w' = next_ref w2 \<and> api_key w' = api_key w2"
    by blast
  then show ?thesis
  proof cases
    case 1
    then show ?thesis by simp
  next
    case 2
    with e1 show ?thesis by simp
  next
    case 3
    then have "extends w2 w'" by (simp add: extends_def)
    with e1 e2 show ?thesis by (blast intro: extends_trans)
  qed
qed

lemma openai_fill_field_nonempty:
  "openai_fill_field svc field g l w = (Inr v, w') \<Longrightarrow> v \<noteq> []"
  by (erule openai_fill_field_unfold) (auto split: option.splits)

lemma openai_fill_field_answer:
  assumes run: "openai_fill_field svc field g l w = (Inr v, w')"
    and g: "g < next_ref w" and l: "l < next_ref w"
  shows "v = (case fst (svc (service_state w)
                 (Request ''gpt-4''
                    (fill_prompt field (stringified (heap w g)) (stringified (heap w l))) 500 10)) of
            None \<Rightarrow> ''Unknown''
          | Some content \<Rightarrow> if strip content \<noteq> [] then strip content else ''Unknown'')"
proof -
  from run obtain g' w1 l' w2 where
    s1: "stringify_addresses g w = (Inr g', w1)" and
    s2: "stringify_addresses l w1 = (Inr l', w2)" and
    v: "v = (case fst (svc (service_state w2)
                 (Request ''gpt-4'' (fill_prompt field (heap w2 g') (heap w2 l')) 500 10)) of
            None \<Rightarrow> ''Unknown''
          | Some content \<Rightarrow> if strip content \<noteq> [] then strip content else ''Unknown'')"
    by (rule openai_fill_field_unfold)
  have e1: "extends w w1" using s1 by (rule stringify_addresses_extends)
  have e2: "extends w1 w2" using s2 by (rule stringify_addresses_extends)
  have "g' < next_ref w1" using s1 g by (rule stringify_addresses_ref)
  then have "heap w2 g' = heap w1 g'" using e2 by (simp add: extends_heap)
  also have "\<dots> = stringified (heap w g)" using s1 by (rule stringify_addresses_heap)
  finally have hg: "heap w2 g' = stringified (heap w g)" .
  have "heap w2 l' = stringified (heap w1 l)" using s2 by (rule stringify_addresses_heap)
  also have "heap w1 l = heap w l" using e1 l by (simp add: extends_heap)
  finally have hl: "heap w2 l' = stringified (heap w l)" .
  have st: "service_state w2 = service_state w"
    using s1 s2 by (simp add: stringify_addresses_service_state)
  show ?thesis using v by (simp add: hg hl st)
qed

lemma openai_fill_field_returns:
  assumes ok: "adapter_error w g l = None" and lr: "l < next_ref w"
  shows "\<exists>v w'. openai_fill_field svc field g l w = (Inr v, w')"
proof -
  from ok have key: "api_key w \<noteq> None"
    and g: "address_joinable (heap w g)" and l: "address_joinable (heap w l)"
    by (auto simp: adapter_error_def split: if_splits)
  from g obtain g' w1 where s1: "stringify_addresses g w = (Inr g', w1)"
    using stringify_addresses_returns by blast
  have "extends w w1" using s1 by (rule stringify_addresses_extends)
  then have "heap w1 l = heap w l" using lr by (simp add: extends_heap)
  with l obtain l' w2 where s2: "stringify_addresses l w1 = (Inr l', w2)"
    using stringify_addresses_returns [of w1 l] by auto
  show ?thesis using key s1 s2
    by (auto simp: openai_fill_field_def openai_client_def Let_def split: prod.splits option.splits)
qed

lemma openai_fill_field_raises:
  assumes err: "adapter_error w g l = Some e" and lr: "l < next_ref w"
  shows "\<exists>w'. openai_fill_field svc field g l w = (Inl e, w')"
proof (cases "api_key w")
  case None
  with err have "e = OpenAIError" by (simp add: adapter_error_def)
  with None show ?thesis by (simp add: openai_fill_field_no_key)
next
  case (Some key)
  with err have e: "e = TypeError"
    and bad: "\<not> address_joinable (heap w g) \<or> \<not> address_joinable (heap w l)"
    by (auto simp: adapter_error_def split: if_splits)
  show ?thesis
  proof (cases "address_joinable (heap w g)")
    case False
    then obtain w1 where "stringify_addresses g w = (Inl TypeError, w1)"
      using stringify_addresses_not_joinable by blast
    with Some e show ?thesis
      by (simp add: openai_fill_field_def openai_client_def)
  next
    case True
    then obtain g' w1 where s1: "stringify_addresses g w = (Inr g', w1)"
      using stringify_addresses_returns by blast
    have "extends w w1" using s1 by (rule stringify_addresses_extends)
    then have "heap w1 l = heap w l" using lr by (simp add: extends_heap)
    with True bad obtain w2 where "stringify_addresses l w1 = (Inl TypeError, w2)"
      using stringify_addresses_not_joinable [of w1 l] by auto
    with Some e s1 show ?thesis
      by (simp add: openai_fill_field_def openai_client_def)
  qed
qed

lemma adapter_error_extends:
  "extends w w' \<Longrightarrow> g < next_ref w \<Longrightarrow> l < next_ref w
    \<Longrightarrow> adapter_error w' g l = adapter_error w g l"
  by (simp add: adapter_error_def extends_def)

lemma openai_select_industry_extends:
  "openai_select_industry svc g l w = (out, w') \<Longrightarrow> extends w w'"
  by (auto simp: openai_select_industry_def openai_client_def Let_def extends_def
           split: prod.splits option.splits if_splits)

lemma openai_select_industry_no_key:
  "api_key w = None \<Longrightarrow> openai_select_industry svc g l w = (Inl OpenAIError, w)"
  by (simp add: openai_select_industry_def openai_client_def)

lemma openai_select_industry_answer:
  assumes "api_key w \<noteq> None"
  shows "fst (openai_select_industry svc g l w) =
       Inr (case fst (svc (service_state w)
               (Request ''gpt-4'' (IndustryPrompt INDUSTRY_TYPES (heap w g) (heap w l)) 20 2)) of
          None \<Rightarrow> ''General''
        | Some content \<Rightarrow> if strip content \<in> set INDUSTRY_TYPES then strip content else ''General'')"
  using assms
  by (auto simp: openai_select_industry_def openai_client_def Let_def
           split: prod.splits option.splits)




lemma loop_body_cases:
  assumes "loop_body svc field g l result w = (out, w')"
  shows "(\<exists>v. out = Inr (result(field \<mapsto> v)) \<and> w' = w
              \<and> \<not> is_missing_or_incorrect v field
              \<and> lower field \<notin> set [''address'', ''phone'']
              \<and> (v = dict_get (heap w g) field (PStr ''N/A'')
                  \<or> is_missing_or_incorrect (dict_get (heap w g) field (PStr ''N/A'')) field
                    \<and> v = dict_get (heap w l) field (PStr ''N/A'')))
       \<or> (\<exists>v. out = Inr (result(field \<mapsto> PStr v))
              \<and> openai_fill_field svc field g l w = (Inr v, w'))
       \<or> (\<exists>e. out = Inl e \<and> openai_fill_field svc field g l w = (Inl e, w'))"
  using assms
  by (auto simp: loop_body_def Let_def split: if_splits prod.splits sum.splits)

lemma loop_body_extends:
  assumes "loop_body svc field g l result w = (out, w')"
  shows "extends w w'"
  using loop_body_cases [OF assms] by (auto intro: openai_fill_field_extends)

lemma loop_body_dom:
  assumes "loop_body svc field g l result w = (Inr result', w')"
  shows "dom result' = insert field (dom result)"
  using loop_body_cases [OF assms] by auto


lemma analyze_loop_extends:
  "analyze_loop svc fs g l result w = (out, w') \<Longrightarrow> extends w w'"
proof (induction fs arbitrary: result w)
  case Nil
  then show ?case by simp
next
  case (Cons field fs)
  show ?case
  proof (cases "lower field = ''country''")
    case True
    with Cons show ?thesis by simp
  next
    case False
    obtain o1 w1 where b: "loop_body svc field g l result w = (o1, w1)" by force
    have e1: "extends w w1" using b by (rule loop_body_extends)
    show ?thesis
    proof (cases o1)
      case (Inl e)
      with Cons.prems False b e1 show ?thesis by simp
    next
      case (Inr result')
      with Cons.prems False b have "analyze_loop svc fs g l result' w1 = (out, w')" by simp
      then have "extends w1 w'" by (rule Cons.IH)
      with e1 show ?thesis by (rule extends_trans)
    qed
  qed
qed

lemma analyze_loop_dom:
  "analyze_loop svc fs g l result w = (Inr r, w')
    \<Longrightarrow> dom r = dom result \<union> {k \<in> set fs. lower k \<noteq> ''country''}"
proof (induction fs arbitrary: result w)
  case Nil
  then show ?case by simp
next
  case (Cons field fs)
  show ?case
  proof (cases "lower field = ''country''")
    case True
    with Cons.prems have "analyze_loop svc fs g l result w = (Inr r, w')" by simp
    from Cons.IH [OF this] True show ?thesis by auto
  next
    case False
    with Cons.prems obtain result' w1 where
      b: "loop_body svc field g l result w = (Inr result', w1)" and
      rest: "analyze_loop svc fs g l result' w1 = (Inr r, w')"
      by (auto split: prod.splits sum.splits)
    from Cons.IH [OF rest] loop_body_dom [OF b] False show ?thesis by auto
  qed
qed


lemma analyze_company_data_unfold:
  assumes "analyze_company_data svc fs g l w = (Inr r, w')"
  obtains result w1 country w2 industry where
    "analyze_loop svc fs g l Map.empty w = (Inr result, w1)"
    "openai_fill_field svc ''country'' g l w1 = (Inr country, w2)"
    "openai_select_industry svc g l w2 = (Inr industry, w')"
    "r = result(''country'' \<mapsto> PStr country, ''industry_type'' \<mapsto> PStr industry)"
  using assms
  by (auto simp: analyze_company_data_def split: prod.splits sum.splits)

lemma analyze_company_data_extends:
  assumes "analyze_company_data svc fs g l w = (out, w')"
  shows "extends w w'"
proof -
  obtain o1 w1 where a: "analyze_loop svc fs g l Map.empty w = (o1, w1)" by force
  obtain o2 w2 where b: "openai_fill_field svc ''country'' g l w1 = (o2, w2)" by force
  obtain o3 w3 where c: "openai_select_industry svc g l w2 = (o3, w3)" by force
  have e1: "extends w w1" using a by (rule analyze_loop_extends)
  have e2: "extends w1 w2" using b by (rule openai_fill_field_extends)
  have e3: "extends w2 w3" using c by (rule openai_select_industry_extends)
  have "w' = w1 \<or> w' = w2 \<or> w' = w3"
    using assms a b c by (auto simp: analyze_company_data_def split: sum.splits)
  with e1 e2 e3 show ?thesis by (blast intro: extends_trans)
qed

lemma loop_body_returns:
  assumes "adapter_error w g l = None" "l < next_ref w"
  shows "\<exists>r w'. loop_body svc field g l result w = (Inr r, w')"
  using openai_fill_field_returns [OF assms, of svc field]
  by (auto simp: loop_body_def Let_def)


lemma analyze_loop_returns:
  "adapter_error w g l = None \<Longrightarrow> g < next_ref w \<Longrightarrow> l < next_ref w
    \<Longrightarrow> \<exists>r w'. analyze_loop svc fs g l result w = (Inr r, w')"
proof (induction fs arbitrary: result w)
  case Nil
  then show ?case by simp
next
  case (Cons field fs)
  show ?case
  proof (cases "lower field = ''country''")
    case True
    with Cons show ?thesis by simp
  next
    case False
    obtain r1 w1 where b: "loop_body svc field g l result w = (Inr r1, w1)"
      using loop_body_returns [OF Cons.prems(1,3)] by blast
    have e: "extends w w1" using b by (rule loop_body_extends)
    have "adapter_error w1 g l = None" "g < next_ref w1" "l < next_ref w1"
      using e Cons.prems by (simp_all add: adapter_error_extends extends_next_ref)
    then have "\<exists>r w'. analyze_loop svc fs g l r1 w1 = (Inr r, w')"
      by (rule Cons.IH)
    with b False show ?thesis by simp
  qed
qed


lemma analyze_company_data_returns:
  assumes ok: "adapter_error w g l = None" and g: "g < next_ref w" and l: "l < next_ref w"
  shows "\<exists>r w'. analyze_company_data svc fs g l w = (Inr r, w')"
proof -
  obtain r1 w1 where a: "analyze_loop svc fs g l Map.empty w = (Inr r1, w1)"
    using analyze_loop_returns [OF ok g l] by blast
  have e1: "extends w w1" using a by (rule analyze_loop_extends)
  have ok1: "adapter_error w1 g l = None" and l1: "l < next_ref w1"
    using e1 ok g l by (simp_all add: adapter_error_extends extends_next_ref)
  obtain c w2 where b: "openai_fill_field svc ''country'' g l w1 = (Inr c, w2)"
    using openai_fill_field_returns [OF ok1 l1] by blast
  have e2: "extends w1 w2" using b by (rule openai_fill_field_extends)
  have "api_key w2 \<noteq> None"
    using ok e1 e2 by (auto simp: adapter_error_def extends_def split: if_splits)
  then obtain i w3 where c: "openai_select_industry svc g l w2 = (Inr i, w3)"
    using openai_select_industry_answer [of w2 svc g l]
    by (cases "openai_select_industry svc g l w2") auto
  show ?thesis using a b c
    by (simp add: analyze_company_data_def)
qed


section \<open>The claims about the engine\<close>

lemma lower_country: "lower ''country'' = ''country''"
  by code_simp

lemma fill_prompt_country: "fill_prompt ''country'' a b = CountryPrompt a b"
  by (simp add: fill_prompt_def lower_country)

text \<open>
  When a field that the validity predicate accepts stands in source A, the loop body
  stores source A's value and does not look at source B.
\<close>

lemma loop_body_source_a_wins:
  assumes "lower field \<notin> set [''address'', ''phone'']"
    and "\<not> is_missing_or_incorrect (dict_get (heap w g) field (PStr ''N/A'')) field"
  shows "loop_body svc field g l result w
           = (Inr (result(field \<mapsto> dict_get (heap w g) field (PStr ''N/A''))), w)"
  using assms by (simp add: loop_body_def Let_def)

text \<open>
  C8. Running the engine leaves both input records as they were: whatever the engine
  returns or raises, the dictionaries at the two references it was given hold afterwards
  what they held before. The join of an address list is written into a fresh copy.
\<close>

theorem analyze_company_data_leaves_inputs:
  assumes "google_data < next_ref w" and "linkedin_data < next_ref w"
  shows "heap (snd (analyze_company_data svc all_fields google_data linkedin_data w)) google_data
           = heap w google_data
       \<and> heap (snd (analyze_company_data svc all_fields google_data linkedin_data w)) linkedin_data
           = heap w linkedin_data"
proof -
  have "extends w (snd (analyze_company_data svc all_fields google_data linkedin_data w))"
    by (rule analyze_company_data_extends [of svc all_fields google_data linkedin_data w
          "fst (analyze_company_data svc all_fields google_data linkedin_data w)"]) simp
  with assms show ?thesis by (simp add: extends_heap)
qed

text \<open>
  An instance with an address list: the two inputs are unchanged and the copy, at the
  first fresh reference, holds the joined addresses.
\<close>

theorem analyze_company_data_leaves_inputs_witness:
  "(0::nat) < next_ref (two_records [(''Address'', PList [PStr ''1 Main St'', PStr ''2 Oak Ave''])]
                          [(''Phone'', PStr ''555-1234'')] ())
   \<and> (1::nat) < next_ref (two_records [(''Address'', PList [PStr ''1 Main St'', PStr ''2 Oak Ave''])]
                          [(''Phone'', PStr ''555-1234'')] ())
   \<and> heap (snd (analyze_company_data (always (Some ''x'')) [''Address'', ''Phone''] 0 1
        (two_records [(''Address'', PList [PStr ''1 Main St'', PStr ''2 Oak Ave''])]
                          [(''Phone'', PStr ''555-1234'')] ()))) 0
       = [(''Address'', PList [PStr ''1 Main St'', PStr ''2 Oak Ave''])]
   \<and> heap (snd (analyze_company_data (always (Some ''x'')) [''Address'', ''Phone''] 0 1
        (two_records [(''Address'', PList [PStr ''1 Main St'', PStr ''2 Oak Ave''])]
                          [(''Phone'', PStr ''555-1234'')] ()))) 1
       = [(''Phone'', PStr ''555-1234'')]
   \<and> heap (snd (analyze_company_data (always (Some ''x'')) [''Address'', ''Phone''] 0 1
        (two_records [(''Address'', PList [PStr ''1 Main St'', PStr ''2 Oak Ave''])]
                          [(''Phone'', PStr ''555-1234'')] ()))) 2
       = [(''Address'', PStr ''1 Main St; 2 Oak Ave'')]"
proof -
  let ?w = "two_records [(''Address'', PList [PStr ''1 Main St'', PStr ''2 Oak Ave''])]
                          [(''Phone'', PStr ''555-1234'')] ()"
  have h0: "(0::nat) < next_ref ?w" and h1: "(1::nat) < next_ref ?w"
    by (simp_all add: two_records_def)
  have copy: "heap (snd (analyze_company_data (always (Some ''x'')) [''Address'', ''Phone''] 0 1 ?w)) 2
       = [(''Address'', PStr ''1 Main St; 2 Oak Ave'')]"
    by code_simp
  from analyze_company_data_leaves_inputs [OF h0 h1, of "always (Some ''x'')" "[''Address'', ''Phone'']"]
  show ?thesis using h0 h1 copy by (simp add: two_records_def)
qed


text \<open>
  C9. The keys of the record the engine returns are the keys of the two inputs, without
  those whose lower-case form is \<^verbatim>\<open>country\<close>, together with \<^verbatim>\<open>country\<close> and
  \<^verbatim>\<open>industry_type\<close>.
\<close>

theorem analyze_company_data_keys:
  assumes run: "analyze_company_data svc all_fields google_data linkedin_data w = (Inr result, w')"
    and order: "all_fields_order all_fields (heap w google_data) (heap w linkedin_data)"
  shows "dom result =
           {k \<in> set (dict_keys (heap w google_data)) \<union> set (dict_keys (heap w linkedin_data)).
              lower k \<noteq> ''country''}
           \<union> {''country'', ''industry_type''}"
proof -
  from run obtain partial w1 country w2 industry where
    loop: "analyze_loop svc all_fields google_data linkedin_data Map.empty w = (Inr partial, w1)"
    and r: "result = partial(''country'' \<mapsto> PStr country, ''industry_type'' \<mapsto> PStr industry)"
    by (rule analyze_company_data_unfold)
  have "dom partial = {k \<in> set all_fields. lower k \<noteq> ''country''}"
    using analyze_loop_dom [OF loop] by simp
  with order r show ?thesis
    by (auto simp: all_fields_order_def)
qed

text \<open>
  Two empty inputs give exactly the keys \<^verbatim>\<open>country\<close> and \<^verbatim>\<open>industry_type\<close>; in the
  second instance the key \<^verbatim>\<open>Country\<close> of source A is dropped.
\<close>

theorem analyze_company_data_keys_witness:
  "all_fields_order [] (heap (two_records [] [] ()) 0) (heap (two_records [] [] ()) 1)
   \<and> (\<exists>result w'. analyze_company_data (always None) [] 0 1 (two_records [] [] ()) = (Inr result, w')
         \<and> dom result = {''country'', ''industry_type''})
   \<and> all_fields_order [''Website'', ''Country'', ''Email'']
        (heap (two_records [(''Country'', PStr ''France''), (''Website'', PStr ''https://acme.com'')]
                           [(''Email'', PStr ''info@acme.com''), (''Website'', PStr ''N/A'')] ()) 0)
        (heap (two_records [(''Country'', PStr ''France''), (''Website'', PStr ''https://acme.com'')]
                           [(''Email'', PStr ''info@acme.com''), (''Website'', PStr ''N/A'')] ()) 1)
   \<and> (\<exists>result w'. analyze_company_data (always (Some ''x'')) [''Website'', ''Country'', ''Email''] 0 1
           (two_records [(''Country'', PStr ''France''), (''Website'', PStr ''https://acme.com'')]
                        [(''Email'', PStr ''info@acme.com''), (''Website'', PStr ''N/A'')] ())
           = (Inr result, w')
         \<and> dom result = {''Website'', ''Email'', ''country'', ''industry_type''})"
proof -
  let ?e = "two_records [] [] ()"
  let ?w = "two_records [(''Country'', PStr ''France''), (''Website'', PStr ''https://acme.com'')]
                        [(''Email'', PStr ''info@acme.com''), (''Website'', PStr ''N/A'')] ()"
  have o1: "all_fields_order [] (heap ?e 0) (heap ?e 1)"
    by (simp add: all_fields_order_def two_records_def dict_keys_def)
  have o2: "all_fields_order [''Website'', ''Country'', ''Email''] (heap ?w 0) (heap ?w 1)"
    by (auto simp: all_fields_order_def two_records_def dict_keys_def)
  obtain r1 w1 where a1: "analyze_company_data (always None) [] 0 1 ?e = (Inr r1, w1)"
    using analyze_company_data_returns [of ?e 0 1 "always None" "[]"]
    by (auto simp: two_records_def address_joinable_def adapter_error_def)
  obtain r2 w2 where a2: "analyze_company_data (always (Some ''x'')) [''Website'', ''Country'', ''Email''] 0 1 ?w
      = (Inr r2, w2)"
    using analyze_company_data_returns [of ?w 0 1 "always (Some ''x'')" "[''Website'', ''Country'', ''Email'']"]
    by (auto simp: two_records_def address_joinable_def adapter_error_def)
  have lc: "lower ''Country'' = ''country''" "lower ''Website'' \<noteq> ''country''"
     "lower ''Email'' \<noteq> ''country''"
    by code_simp+
  have d1: "dom r1 = {''country'', ''industry_type''}"
    using analyze_company_data_keys [OF a1 o1] by (simp add: two_records_def dict_keys_def)
  have d2: "dom r2 = {''Website'', ''Email'', ''country'', ''industry_type''}"
    using analyze_company_data_keys [OF a2 o2] lc by (auto simp: two_records_def dict_keys_def)
  from o1 o2 a1 a2 d1 d2 show ?thesis by blast
qed


text \<open>
  C4. The fused \<^verbatim>\<open>country\<close> is what the adapter returns for the field \<^verbatim>\<open>country\<close>
  after the loop: the service's answer to the country prompt, stripped, or
  \<^verbatim>\<open>"Unknown"\<close>. No country value of the two inputs is stored under that key.
\<close>

theorem country_always_generative:
  assumes run: "analyze_company_data svc all_fields google_data linkedin_data w = (Inr result, w')"
    and g: "google_data < next_ref w" and l: "linkedin_data < next_ref w"
  shows "\<exists>partial w1 w2 country.
           analyze_loop svc all_fields google_data linkedin_data Map.empty w = (Inr partial, w1)
         \<and> openai_fill_field svc ''country'' google_data linkedin_data w1 = (Inr country, w2)
         \<and> result ''country'' = Some (PStr country)
         \<and> country =
             (case fst (svc (service_state w1)
                     (Request ''gpt-4''
                        (CountryPrompt (stringified (heap w google_data))
                                       (stringified (heap w linkedin_data))) 500 10)) of
                None \<Rightarrow> ''Unknown''
              | Some content \<Rightarrow> if strip content \<noteq> [] then strip content else ''Unknown'')"
proof -
  from run obtain partial w1 country w2 industry where
    loop: "analyze_loop svc all_fields google_data linkedin_data Map.empty w = (Inr partial, w1)"
    and fill: "openai_fill_field svc ''country'' google_data linkedin_data w1 = (Inr country, w2)"
    and r: "result = partial(''country'' \<mapsto> PStr country, ''industry_type'' \<mapsto> PStr industry)"
    by (rule analyze_company_data_unfold)
  have e: "extends w w1" using loop by (rule analyze_loop_extends)
  have g1: "google_data < next_ref w1" and l1: "linkedin_data < next_ref w1"
    using e g l by (simp_all add: extends_next_ref)
  have same: "heap w1 google_data = heap w google_data" "heap w1 linkedin_data = heap w linkedin_data"
    using e g l by (simp_all add: extends_heap)
  have "result ''country'' = Some (PStr country)" using r by simp
  moreover have "country =
             (case fst (svc (service_state w1)
                     (Request ''gpt-4''
                        (CountryPrompt (stringified (heap w google_data))
                                       (stringified (heap w linkedin_data))) 500 10)) of
                None \<Rightarrow> ''Unknown''
              | Some content \<Rightarrow> if strip content \<noteq> [] then strip content else ''Unknown'')"
    using openai_fill_field_answer [OF fill g1 l1] by (simp add: fill_prompt_country same)
  ultimately show ?thesis using loop fill by blast
qed

text \<open>
  Both sources carry a country, one of them a value the validity predicate accepts; the
  fused country is the service's answer.
\<close>

theorem country_always_generative_witness:
  "(0::nat) < next_ref (two_records [(''Country'', PStr ''France'')] [(''country'', PInt 33)] ())
   \<and> (1::nat) < next_ref (two_records [(''Country'', PStr ''France'')] [(''country'', PInt 33)] ())
   \<and> (\<exists>result w'. analyze_company_data (always (Some '' Germany '')) [''country'', ''Country''] 0 1
           (two_records [(''Country'', PStr ''France'')] [(''country'', PInt 33)] ()) = (Inr result, w')
         \<and> result ''country'' = Some (PStr ''Germany''))"
proof -
  let ?w = "two_records [(''Country'', PStr ''France'')] [(''country'', PInt 33)] ()"
  have h0: "(0::nat) < next_ref ?w" and h1: "(1::nat) < next_ref ?w"
    by (simp_all add: two_records_def)
  obtain r w' where a: "analyze_company_data (always (Some '' Germany '')) [''country'', ''Country''] 0 1 ?w
      = (Inr r, w')"
    using analyze_company_data_returns [of ?w 0 1 "always (Some '' Germany '')" "[''country'', ''Country'']"]
    by (auto simp: two_records_def address_joinable_def adapter_error_def)
  have s: "strip '' Germany '' = ''Germany''" by code_simp
  from country_always_generative [OF a h0 h1]
  have "r ''country'' = Some (PStr ''Germany'')"
    by (auto simp: always_def s)
  with a h0 h1 show ?thesis by blast
qed



text \<open>
  C6 as stated fails, in three ways. When the service fails the adapter returns
  \<^verbatim>\<open>"Unknown"\<close>, which is one of the sentinel values: upper-cased it is a phrase of
  \<open>missing_phrases\<close>. When an address list holds a member that is not a string, the
  adapter raises \<^verbatim>\<open>TypeError\<close> instead of returning. And without an API key it raises
  \<^verbatim>\<open>OpenAIError\<close>.
\<close>

theorem openai_fill_field_sentinel_counterexample:
  "(case openai_fill_field (always None) ''Email'' 0 1
          (two_records [(''Email'', PStr ''N/A'')] [(''Email'', PStr ''N/A'')] ()) of
      (Inr v, w') \<Rightarrow> v = ''Unknown'' \<and> contains ''UNKNOWN'' (upper (strip v))
    | (Inl e, w') \<Rightarrow> False)
   \<and> ''UNKNOWN'' \<in> set missing_phrases
   \<and> fst (openai_fill_field (always (Some ''info@acme.com'')) ''Email'' 0 1
          (two_records [(''Address'', PList [PStr ''1 Main St'', PNone])] [] ())) = Inl TypeError
   \<and> fst (openai_fill_field (always (Some ''info@acme.com'')) ''Email'' 0 1
          ((two_records [(''Email'', PStr ''N/A'')] [] ())\<lparr>api_key := None\<rparr>)) = Inl OpenAIError"
  by code_simp

text \<open>
  C6, amended. For every field name and every two source records: without an API key the
  adapter raises \<^verbatim>\<open>OpenAIError\<close>; with a key, when the \<^verbatim>\<open>Address\<close> entry of one of the
  records is a list that holds a member that is not a string, it raises \<^verbatim>\<open>TypeError\<close>;
  in every other case it returns a string that is never empty: \<^verbatim>\<open>"Unknown"\<close> when the
  service fails, otherwise the stripped answer, or \<^verbatim>\<open>"Unknown"\<close> when the stripped
  answer is empty. (The string can be a sentinel.)
\<close>

theorem openai_fill_field_result:
  assumes g: "google_data < next_ref w" and l: "linkedin_data < next_ref w"
  shows "case adapter_error w google_data linkedin_data of
           Some e \<Rightarrow> fst (openai_fill_field svc field google_data linkedin_data w) = Inl e
         | None \<Rightarrow>
             (\<exists>v w'. openai_fill_field svc field google_data linkedin_data w = (Inr v, w')
                \<and> v \<noteq> []
                \<and> v = (case fst (svc (service_state w)
                           (Request ''gpt-4''
                              (fill_prompt field (stringified (heap w google_data))
                                                 (stringified (heap w linkedin_data))) 500 10)) of
                         None \<Rightarrow> ''Unknown''
                       | Some content \<Rightarrow>
                           if strip content \<noteq> [] then strip content else ''Unknown''))"
proof (cases "adapter_error w google_data linkedin_data")
  case None
  then obtain v w' where
    run: "openai_fill_field svc field google_data linkedin_data w = (Inr v, w')"
    using openai_fill_field_returns [OF _ l] by blast
  from openai_fill_field_nonempty [OF run] openai_fill_field_answer [OF run g l] run None
  show ?thesis by auto
next
  case (Some e)
  then obtain w' where "openai_fill_field svc field google_data linkedin_data w = (Inl e, w')"
    using openai_fill_field_raises [OF _ l] by blast
  with Some show ?thesis by simp
qed

text \<open>
  An answer with surrounding blanks, an answer of blanks only, a list with a member that
  is not a string, and a world without an API key.
\<close>

theorem openai_fill_field_result_witness:
  "(0::nat) < next_ref (two_records [(''Address'', PList [PStr ''1 Main St'', PStr ''2 Oak Ave''])] [] ())
   \<and> (1::nat) < next_ref (two_records [(''Address'', PList [PStr ''1 Main St'', PStr ''2 Oak Ave''])] [] ())
   \<and> (\<exists>w'. openai_fill_field (always (Some '' contact@acme.com '')) ''Email'' 0 1
           (two_records [(''Address'', PList [PStr ''1 Main St'', PStr ''2 Oak Ave''])] [] ())
         = (Inr ''contact@acme.com'', w'))
   \<and> (\<exists>w'. openai_fill_field (always (Some ''   '')) ''Email'' 0 1
           (two_records [(''Address'', PList [PStr ''1 Main St'', PStr ''2 Oak Ave''])] [] ())
         = (Inr ''Unknown'', w'))
   \<and> fst (openai_fill_field (always (Some ''x'')) ''Email'' 0 1
           (two_records [] [(''Address'', PList [PInt 7])] ())) = Inl TypeError
   \<and> fst (openai_fill_field (always (Some ''x'')) ''Email'' 0 1
           ((two_records [] [(''Address'', PList [PInt 7])] ())\<lparr>api_key := None\<rparr>)) = Inl OpenAIError"
proof -
  let ?w = "two_records [(''Address'', PList [PStr ''1 Main St'', PStr ''2 Oak Ave''])] [] ()"
  let ?t = "two_records [] [(''Address'', PList [PInt 7])] ()"
  let ?n = "(two_records [] [(''Address'', PList [PInt 7])] ())\<lparr>api_key := None\<rparr>"
  have h0: "(0::nat) < next_ref ?w" and h1: "(1::nat) < next_ref ?w"
    and t0: "(0::nat) < next_ref ?t" and t1: "(1::nat) < next_ref ?t"
    and n0: "(0::nat) < next_ref ?n" and n1: "(1::nat) < next_ref ?n"
    by (simp_all add: two_records_def)
  have ok: "adapter_error ?w 0 1 = None"
    and ty: "adapter_error ?t 0 1 = Some TypeError"
    and nk: "adapter_error ?n 0 1 = Some OpenAIError"
    by (simp_all add: two_records_def adapter_error_def address_joinable_def)
  have s1: "strip '' contact@acme.com '' = ''contact@acme.com''" and s2: "strip ''   '' = []"
    by code_simp+
  have a: "\<exists>w'. openai_fill_field (always (Some '' contact@acme.com '')) ''Email'' 0 1 ?w
         = (Inr ''contact@acme.com'', w')"
    using openai_fill_field_result [OF h0 h1, of "always (Some '' contact@acme.com '')" "''Email''",
        unfolded ok]
    by (auto simp: always_def s1)
  have b: "\<exists>w'. openai_fill_field (always (Some ''   '')) ''Email'' 0 1 ?w = (Inr ''Unknown'', w')"
    using openai_fill_field_result [OF h0 h1, of "always (Some ''   '')" "''Email''", unfolded ok]
    by (auto simp: always_def s2)
  have c: "fst (openai_fill_field (always (Some ''x'')) ''Email'' 0 1 ?t) = Inl TypeError"
    using openai_fill_field_result [OF t0 t1, of "always (Some ''x'')" "''Email''", unfolded ty]
    by simp
  have d: "fst (openai_fill_field (always (Some ''x'')) ''Email'' 0 1 ?n) = Inl OpenAIError"
    using openai_fill_field_result [OF n0 n1, of "always (Some ''x'')" "''Email''", unfolded nk]
    by simp
  from h0 h1 a b c d show ?thesis by blast
qed




text \<open>
  C1. The code at the inputs the claim calls valid: \<^verbatim>\<open>"valid@x.com"\<close> for Email,
  \<^verbatim>\<open>"555-1234"\<close> for Phone and \<^verbatim>\<open>"https://example.com"\<close> for Website are all reported
  missing or incorrect, because the empty phrase occurs in every string.
\<close>

theorem is_missing_or_incorrect_rejects_valid_strings:
  "is_missing_or_incorrect (PStr ''valid@x.com'') ''Email''
   \<and> is_missing_or_incorrect (PStr ''555-1234'') ''Phone''
   \<and> is_missing_or_incorrect (PStr ''https://example.com'') ''Website''"
  by code_simp

text \<open>
  C2. The code at the claim's own example: both websites are reported missing or
  incorrect, so the fused \<^verbatim>\<open>Website\<close> is the service's answer and not source A's value.
\<close>

theorem source_a_website_not_kept:
  "(case analyze_company_data (always (Some ''https://acme.org'')) [''Website''] 0 1
          (two_records [(''Website'', PStr ''https://acme.com'')]
                       [(''Website'', PStr ''https://acme.net'')] ()) of
      (Inr result, w') \<Rightarrow> result ''Website'' = Some (PStr ''https://acme.org'')
    | (Inl e, w') \<Rightarrow> False)"
  by code_simp

text \<open>
  Where no list member is a blank string, the combiner is the reference definition.
\<close>

lemma strip_Nil [simp]: "strip [] = []"
  by (simp add: strip_def)

lemma first_seen_snoc:
  "first_seen (xs @ [x]) = (if x \<in> set xs then first_seen xs else first_seen xs @ [x])"
  by (simp add: first_seen_def)

lemma set_first_seen [simp]: "set (first_seen xs) = set xs"
  by (simp add: first_seen_def)

lemma dedup_loop_first_seen: "dedup_loop (first_seen pre) xs = first_seen (pre @ xs)"
proof (induction xs arbitrary: pre)
  case Nil
  show ?case by simp
next
  case (Cons x xs)
  have "dedup_loop (first_seen pre) (x # xs) = dedup_loop (first_seen (pre @ [x])) xs"
    by (simp add: first_seen_snoc)
  also have "\<dots> = first_seen ((pre @ [x]) @ xs)" by (rule Cons.IH)
  finally show ?case by simp
qed

lemma dedup_loop_is_first_seen: "dedup_loop [] xs = first_seen xs"
  using dedup_loop_first_seen [of "[]" xs] by (simp add: first_seen_def)

lemma split_values_members:
  "list_all (\<lambda>m. case m of PStr s \<Rightarrow> s = [] \<or> strip s \<noteq> [] | _ \<Rightarrow> True) members
    \<Longrightarrow> concat (map (\<lambda>v. case v of PStr s \<Rightarrow> if truthy v then [strip s] else [] | _ \<Rightarrow> []) members)
      = filter (\<lambda>p. p \<noteq> [])
          (map strip (concat (map (\<lambda>m. case m of PStr s \<Rightarrow> [s] | _ \<Rightarrow> []) members)))"
  by (induction members) (auto split: pyval.splits)

lemma split_values_reference:
  "no_blank_member v \<Longrightarrow> split_values v = normalize_reference v"
  by (cases v) (simp_all add: no_blank_member_def normalize_reference_def split_values_members)

lemma combine_multiple_values_reference:
  assumes "no_blank_member a" and "no_blank_member b"
  shows "combine_multiple_values a b = combine_reference a b"
  using assms
  by (simp add: combine_multiple_values_def combine_reference_def split_values_reference
        dedup_loop_is_first_seen Let_def)

text \<open>
  C7. The code at a list whose only member is a blank: the member is kept because it is
  not empty, stripped to the empty string, and the combiner returns the empty string
  where the reference definition gives \<^verbatim>\<open>None\<close>. The example of two addresses is
  computed as the specification says.
\<close>

theorem combine_multiple_values_empty_string:
  "combine_multiple_values (PList [PStr '' '']) PNone = PStr []
   \<and> combine_reference (PList [PStr '' '']) PNone = PNone
   \<and> combine_multiple_values (PList [PStr ''123 Main St'', PStr ''456 Oak Ave''])
        (PStr ''123 Main St; 789 Pine Rd'') = PStr ''123 Main St; 456 Oak Ave; 789 Pine Rd''"
  by code_simp

end
